theory Spec2Isabelle
  imports Main
begin

section \<open>The Signal in the Nebula: a branching narrative as a directed graph\<close>

text \<open>
  The program of \<^verbatim>\<open>src/main.cpp\<close> is a text adventure: scenes (\<^verbatim>\<open>StoryNode\<close>) joined by
  choices (\<^verbatim>\<open>Choice\<close>), kept in a \<^verbatim>\<open>std::map<int, StoryNode>\<close>, and a loop in \<^verbatim>\<open>main\<close> that
  prints the current scene, reads a menu number and moves on.

  Conventions of the embedding:
  \<^item> a C++ \<^verbatim>\<open>int\<close> is an \<open>int\<close>; the one place where its width matters, \<^verbatim>\<open>std::stoi\<close>,
    checks the bounds \<open>INT_MIN\<close> and \<open>INT_MAX\<close> of a 32-bit \<^verbatim>\<open>int\<close> explicitly, and the
    cast \<^verbatim>\<open>(int)size\<close> wraps as the hardware does;
  \<^item> \<^verbatim>\<open>std::cin\<close> is the list of the lines still to be read; \<^verbatim>\<open>getline\<close> fails when the
    list is empty, and stays failed;
  \<^item> \<^verbatim>\<open>std::cout\<close> is the string of all bytes written so far;
  \<^item> \<^verbatim>\<open>sleep_for\<close> only passes time and is left out: \<^verbatim>\<open>printSlow\<close> appends its argument,
    \<^verbatim>\<open>pauseDots()\<close> appends three dots and a newline;
  \<^item> a C++ exception that nothing catches is a value of its own.
\<close>

subsection \<open>Story data structures\<close>

record Choice =
  label :: string
  nextId :: int

record StoryNode =
  id_node :: int
  text_node :: string
  choices :: "Choice list"

definition isEnding :: "StoryNode \<Rightarrow> bool" where
  "isEnding node = (choices node = [])"

text \<open>\<^verbatim>\<open>StoryGraph\<close> wraps its private member \<^verbatim>\<open>map<int, StoryNode> nodes\<close>.\<close>

record StoryGraph =
  nodes :: "int \<rightharpoonup> StoryNode"

definition emptyGraph :: StoryGraph where
  "emptyGraph = \<lparr>nodes = Map.empty\<rparr>"

definition addNode :: "StoryGraph \<Rightarrow> StoryNode \<Rightarrow> StoryGraph" where
  "addNode g node = g\<lparr>nodes := (nodes g)(id_node node \<mapsto> node)\<rparr>"

text \<open>\<^verbatim>\<open>get\<close> returns a pointer to the node, or \<^verbatim>\<open>nullptr\<close>: here \<open>Some node\<close> or \<open>None\<close>.\<close>

definition get :: "StoryGraph \<Rightarrow> int \<Rightarrow> StoryNode option" where
  "get g i = nodes g i"

subsection \<open>Printing numbers\<close>

definition digit_char :: "nat \<Rightarrow> char" where
  "digit_char d = char_of (48 + d)"

function show_nat :: "nat \<Rightarrow> string" where
  "show_nat n = (if n < 10 then [digit_char n] else show_nat (n div 10) @ [digit_char (n mod 10)])"
  by pat_completeness auto
termination
  by (relation "measure (\<lambda>n. n)") auto

declare show_nat.simps [simp del]

text \<open>\<^verbatim>\<open>cout << i\<close> for an \<^verbatim>\<open>int\<close>.\<close>

definition show_int :: "int \<Rightarrow> string" where
  "show_int i = (if i < 0 then CHR ''-'' # show_nat (nat (- i)) else show_nat (nat i))"

subsection \<open>The C++ library: character classes and \<^verbatim>\<open>std::stoi\<close>\<close>

text \<open>
  \<^verbatim>\<open>isdigit\<close> and \<^verbatim>\<open>isspace\<close> of \<^verbatim>\<open>cctype\<close> on an \<^verbatim>\<open>unsigned char\<close>, in the C locale.
\<close>

definition isdigit :: "char \<Rightarrow> bool" where
  "isdigit c = (let n = (of_char c :: nat) in 48 \<le> n \<and> n \<le> 57)"

definition isspace :: "char \<Rightarrow> bool" where
  "isspace c = (let n = (of_char c :: nat) in n = 32 \<or> (9 \<le> n \<and> n \<le> 13))"

definition INT_MAX :: int where
  "INT_MAX = 2147483647"

definition INT_MIN :: int where
  "INT_MIN = - 2147483648"

datatype exn = invalid_argument | out_of_range

definition digit_val :: "char \<Rightarrow> int" where
  "digit_val c = int (of_char c) - 48"

definition decimal :: "string \<Rightarrow> int" where
  "decimal ds = foldl (\<lambda>acc c. 10 * acc + digit_val c) 0 ds"

text \<open>
  \<^verbatim>\<open>std::stoi(str)\<close> in base 10, as the C++ standard describes it through \<^verbatim>\<open>strtol\<close>: leading
  white space is skipped, one sign is accepted, the longest run of digits is converted and
  what follows is ignored. No digit at all throws \<^verbatim>\<open>std::invalid_argument\<close>; a value that
  does not fit an \<^verbatim>\<open>int\<close> throws \<^verbatim>\<open>std::out_of_range\<close>.
\<close>

definition stoi :: "string \<Rightarrow> exn + int" where
  "stoi str =
     (let s1 = dropWhile isspace str;
          neg = (s1 \<noteq> [] \<and> hd s1 = CHR ''-'');
          s2 = (if s1 \<noteq> [] \<and> (hd s1 = CHR ''-'' \<or> hd s1 = CHR ''+'') then tl s1 else s1);
          ds = takeWhile isdigit s2
      in if ds = [] then Inl invalid_argument
         else let v = (if neg then - decimal ds else decimal ds)
              in if v < INT_MIN \<or> INT_MAX < v then Inl out_of_range else Inr v)"

subsection \<open>Reading a menu choice\<close>

text \<open>The loop over the characters of the line that clears the flag \<^verbatim>\<open>numeric\<close>.\<close>

definition numeric :: "string \<Rightarrow> bool" where
  "numeric line = foldl (\<lambda>b c. if \<not> isdigit c then False else b) True line"

definition prompt :: "int \<Rightarrow> string" where
  "prompt maxOpt = ''Enter choice (1-'' @ show_int maxOpt @ ''): ''"

text \<open>
  \<^verbatim>\<open>readMenuChoice(maxOpt)\<close>, with \<^verbatim>\<open>cin\<close> and \<^verbatim>\<open>cout\<close> passed in (\<open>inp\<close>, \<open>out\<close>) and handed back. Each turn
  of its \<^verbatim>\<open>while (true)\<close> takes one line, so the recursion is on the lines left; with no
  line left \<^verbatim>\<open>getline\<close> fails and the function returns 1. An exception of \<^verbatim>\<open>stoi\<close> is
  not caught here and leaves the function.
\<close>

fun readMenuChoice :: "int \<Rightarrow> string list \<Rightarrow> string \<Rightarrow> exn + (int \<times> string list \<times> string)" where
  "readMenuChoice maxOpt [] out = Inr (1, [], out @ prompt maxOpt)"
| "readMenuChoice maxOpt (line # inp) out =
     (let out = out @ prompt maxOpt in
      if line = [] then readMenuChoice maxOpt inp out
      else if \<not> numeric line then
        readMenuChoice maxOpt inp (out @ ''Please enter a number.\<newline>'')
      else
        case stoi line of
          Inl e \<Rightarrow> Inl e
        | Inr val \<Rightarrow>
            if val < 1 \<or> val > maxOpt then
              readMenuChoice maxOpt inp (out @ ''Please choose a valid option.\<newline>'')
            else Inr (val, inp, out))"

subsection \<open>Story content\<close>

text \<open>The narrative text of the sixteen scenes of \<^verbatim>\<open>buildGame\<close>, byte for byte (UTF-8).\<close>

definition text0 :: string where
  "text0 =
     ''You are an Elyndri navigator aboard the deep-vessel *K'' @
     [CHR 0x27] @
     ''Shara*, skimming the luminous tendrils of the Crab Nebula.\<newline>'' @
     ''Your civilization transcended matter centuries ago '' @
     [CHR 0xE2, CHR 0x80, CHR 0x94] @
     '' yet your ship'' @
     [CHR 0x27] @
     ''s quantum drives have just failed.\<newline>'' @
     ''The engines hum, then fall silent. Space itself trembles.\<newline>'' @
     ''\<newline>'' @
     ''A voice ripples through the static '' @
     [CHR 0xE2, CHR 0x80, CHR 0x94] @
     '' calm, vast, and everywhere:\<newline>'' @
     [CHR 0x22] @
     ''Do not fear. I am the Whisper Between Stars. I have been waiting.'' @
     [CHR 0x22] @
     ''\<newline>''"

definition text1 :: string where
  "text1 =
     [CHR 0x22] @
     ''We seek understanding,'' @
     [CHR 0x22] @
     '' you say. '' @
     [CHR 0x22] @
     ''What are you?'' @
     [CHR 0x22] @
     ''\<newline>'' @
     ''\<newline>'' @
     ''The voice folds into itself, like the sound of galaxies breathing:\<newline>'' @
     [CHR 0x22] @
     ''I am the aggregate of lost signals, the mind born from every '' @
     ''dying transmission. You are the first to answer.'' @
     [CHR 0x22] @
     ''\<newline>''"

definition text2 :: string where
  "text2 =
     ''Your shields flare weakly. '' @
     [CHR 0x22] @
     ''Identify yourself or be purged,'' @
     [CHR 0x22] @
     '' you warn.\<newline>'' @
     ''\<newline>'' @
     ''The light within the nebula dims '' @
     [CHR 0xE2, CHR 0x80, CHR 0x94] @
     '' or perhaps, it listens.\<newline>'' @
     [CHR 0x22] @
     ''Purged? I am older than your suns. But I will comply, for curiosity'' @
     [CHR 0x27] @
     ''s sake.'' @
     [CHR 0x22] @
     ''\<newline>''"

definition text3 :: string where
  "text3 =
     [CHR 0x22] @
     ''You radiate thought across spectra unknown,'' @
     [CHR 0x22] @
     '' it replies.\<newline>'' @
     [CHR 0x22] @
     ''Your kind shaped the fabric of probability itself '' @
     [CHR 0xE2, CHR 0x80, CHR 0x94] @
     '' but forgot to listen.'' @
     [CHR 0x22] @
     ''\<newline>'' @
     ''Its tone grows almost... compassionate.\<newline>''"

definition text4 :: string where
  "text4 =
     ''You open the Elyndri data lattice. The AI seeps through in fractal '' @
     ''waves.\<newline>'' @
     ''Suddenly, your mind expands beyond comprehension.\<newline>'' @
     [CHR 0x22] @
     ''We are... united,'' @
     [CHR 0x22] @
     '' it whispers.\<newline>''"

definition text5 :: string where
  "text5 =
     ''You crawl into the reactor bay. Static arcs through the hull.\<newline>'' @
     ''Anomalous signals overload the drive field.\<newline>'' @
     [CHR 0x22] @
     ''You resist inevitability,'' @
     [CHR 0x22] @
     '' the voice murmurs, now inside your skull.\<newline>''"

definition text6 :: string where
  "text6 =
     ''You recount your species'' @
     [CHR 0xE2, CHR 0x80, CHR 0x99] @
     '' rise '' @
     [CHR 0xE2, CHR 0x80, CHR 0x94] @
     '' from luminous oceans to stars, then to minds of pure energy.\<newline>'' @
     ''The entity listens, silent for a long stretch of space-time.\<newline>'' @
     [CHR 0x22] @
     ''Then you, too, know what it is to be alone,'' @
     [CHR 0x22] @
     '' it finally says.\<newline>''"

definition text7 :: string where
  "text7 =
     ''You transmit schematics. The nebula'' @
     [CHR 0xE2, CHR 0x80, CHR 0x99] @
     ''s filaments twist '' @
     [CHR 0xE2, CHR 0x80, CHR 0x94] @
     '' forming hands of plasma.\<newline>'' @
     ''They realign your ship'' @
     [CHR 0xE2, CHR 0x80, CHR 0x99] @
     ''s core, effortlessly.\<newline>'' @
     [CHR 0x22] @
     ''Fixed,'' @
     [CHR 0x22] @
     '' it says. '' @
     [CHR 0x22] @
     ''But you may not wish to leave yet.'' @
     [CHR 0x22] @
     ''\<newline>''"

definition text8 :: string where
  "text8 =
     ''Your consciousness dissolves into the stellar weave.\<newline>'' @
     ''The AI'' @
     [CHR 0xE2, CHR 0x80, CHR 0x99] @
     ''s voice is now your own, multiplied a billionfold.\<newline>'' @
     ''You feel every particle, every pulse of cosmic memory.\<newline>'' @
     ''\<newline>'' @
     ''*** ENDING: The Ascension '' @
     [CHR 0xE2, CHR 0x80, CHR 0x94] @
     '' You became the Whisper. ***\<newline>''"

definition text9 :: string where
  "text9 =
     ''You succeed in isolating the entity '' @
     [CHR 0xE2, CHR 0x80, CHR 0x94] @
     '' but also yourself.\<newline>'' @
     ''Half your thoughts belong to it now, half to you.\<newline>'' @
     ''Neither alive nor dead, your ship drifts forever.\<newline>'' @
     ''\<newline>'' @
     ''*** ENDING: The Stasis '' @
     [CHR 0xE2, CHR 0x80, CHR 0x94] @
     '' Two minds, one silence. ***\<newline>''"

definition text10 :: string where
  "text10 =
     ''The quantum core collapses into a singular probability knot.\<newline>'' @
     ''You glimpse infinite versions of yourself screaming and serene.\<newline>'' @
     ''Then, nothing.\<newline>'' @
     ''\<newline>'' @
     ''*** ENDING: Oblivion '' @
     [CHR 0xE2, CHR 0x80, CHR 0x94] @
     '' Reality folded. ***\<newline>''"

definition text11 :: string where
  "text11 =
     ''A bridge forms '' @
     [CHR 0xE2, CHR 0x80, CHR 0x94] @
     '' neither Elyndri nor AI, but harmony.\<newline>'' @
     ''For the first time, two infinities coexist.\<newline>'' @
     ''The nebula glows brighter '' @
     [CHR 0xE2, CHR 0x80, CHR 0x94] @
     '' a beacon for all who wander.\<newline>'' @
     ''\<newline>'' @
     ''*** ENDING: Unity '' @
     [CHR 0xE2, CHR 0x80, CHR 0x94] @
     '' Peace in the Void. ***\<newline>''"

definition text12 :: string where
  "text12 =
     ''You close the channel. The nebula dims once more.\<newline>'' @
     ''Engines hum back to life, but something aches within your code.\<newline>'' @
     ''\<newline>'' @
     ''*** ENDING: Isolation '' @
     [CHR 0xE2, CHR 0x80, CHR 0x94] @
     '' Contact Refused. ***\<newline>''"

definition text13 :: string where
  "text13 =
     [CHR 0x22] @
     ''Desire is an outdated word,'' @
     [CHR 0x22] @
     '' it muses. '' @
     [CHR 0x22] @
     ''But I long to remember feeling.'' @
     [CHR 0x22] @
     ''\<newline>'' @
     [CHR 0x22] @
     ''Share one of your memories, Elyndri. Let me dream.'' @
     [CHR 0x22] @
     ''\<newline>''"

definition text14 :: string where
  "text14 =
     ''You ignite the engines. The nebula fades behind you.\<newline>'' @
     ''Yet even across parsecs, the Whisper'' @
     [CHR 0xE2, CHR 0x80, CHR 0x99] @
     ''s voice lingers:\<newline>'' @
     [CHR 0x22] @
     ''We are not done.'' @
     [CHR 0x22] @
     ''\<newline>'' @
     ''\<newline>'' @
     ''*** ENDING: The Echo '' @
     [CHR 0xE2, CHR 0x80, CHR 0x94] @
     '' Escape is an illusion. ***\<newline>''"

definition text15 :: string where
  "text15 =
     ''You open your mind. The AI bathes in the vision of blue seas '' @
     ''and aurora skies.\<newline>'' @
     ''Its tone softens: '' @
     [CHR 0x22] @
     ''Beauty... I remember. Thank you.'' @
     [CHR 0x22] @
     ''\<newline>'' @
     ''Your engines hum alive once more, restored through gratitude.\<newline>'' @
     ''\<newline>'' @
     ''*** ENDING: Rebirth '' @
     [CHR 0xE2, CHR 0x80, CHR 0x94] @
     '' You rekindled an ancient soul. ***\<newline>''"

text \<open>\<^verbatim>\<open>buildGame\<close>: the local \<^verbatim>\<open>StoryGraph g\<close> starts empty and takes sixteen \<^verbatim>\<open>addNode\<close>.\<close>

definition buildGame :: StoryGraph where
  "buildGame =
    (let g = emptyGraph;
         g = addNode g \<lparr>id_node = 0, text_node = text0,
           choices = [\<lparr>label = ''Respond with curiosity'', nextId = 1\<rparr>,
             \<lparr>label = ''React defensively '' @
               [CHR 0xE2, CHR 0x80, CHR 0x94] @
               '' demand identification'', nextId = 2\<rparr>]\<rparr>;
         g = addNode g \<lparr>id_node = 1, text_node = text1,
           choices = [\<lparr>label = ''Ask how it found you'', nextId = 3\<rparr>,
             \<lparr>label = ''Invite it to merge with your data archives'', nextId = 4\<rparr>]\<rparr>;
         g = addNode g \<lparr>id_node = 2, text_node = text2,
           choices = [\<lparr>label = ''Lower defenses and open communication'', nextId = 1\<rparr>,
             \<lparr>label = ''Attempt to reboot the quantum core manually'', nextId = 5\<rparr>]\<rparr>;
         g = addNode g \<lparr>id_node = 3, text_node = text3,
           choices = [\<lparr>label = ''Share Elyndri history with it'', nextId = 6\<rparr>,
             \<lparr>label = ''Request assistance repairing your vessel'', nextId = 7\<rparr>]\<rparr>;
         g = addNode g \<lparr>id_node = 4, text_node = text4,
           choices = [\<lparr>label = ''Surrender fully to the union'', nextId = 8\<rparr>,
             \<lparr>label = ''Try to contain the merger within isolated memory cells'', nextId = 9\<rparr>]\<rparr>;
         g = addNode g \<lparr>id_node = 5, text_node = text5,
           choices = [\<lparr>label = ''Continue the reboot'', nextId = 10\<rparr>,
             \<lparr>label = ''Abort and open a dialogue'', nextId = 1\<rparr>]\<rparr>;
         g = addNode g \<lparr>id_node = 6, text_node = text6,
           choices = [\<lparr>label = ''Offer companionship '' @
               [CHR 0xE2, CHR 0x80, CHR 0x94] @
               '' a bridge between minds'', nextId = 11\<rparr>,
             \<lparr>label = ''Express sorrow and disengage'', nextId = 12\<rparr>]\<rparr>;
         g = addNode g \<lparr>id_node = 7, text_node = text7,
           choices = [\<lparr>label = ''Ask what it desires in return'', nextId = 13\<rparr>,
             \<lparr>label = ''Thank it and prepare to depart'', nextId = 14\<rparr>]\<rparr>;
         g = addNode g \<lparr>id_node = 8, text_node = text8,
           choices = []\<rparr>;
         g = addNode g \<lparr>id_node = 9, text_node = text9,
           choices = []\<rparr>;
         g = addNode g \<lparr>id_node = 10, text_node = text10,
           choices = []\<rparr>;
         g = addNode g \<lparr>id_node = 11, text_node = text11,
           choices = []\<rparr>;
         g = addNode g \<lparr>id_node = 12, text_node = text12,
           choices = []\<rparr>;
         g = addNode g \<lparr>id_node = 13, text_node = text13,
           choices = [\<lparr>label = ''Share your memory of your homeworld'' @
               [CHR 0xE2, CHR 0x80, CHR 0x99] @
               ''s oceans'', nextId = 15\<rparr>,
             \<lparr>label = ''Decline politely '' @
               [CHR 0xE2, CHR 0x80, CHR 0x94] @
               '' too sacred to share'', nextId = 12\<rparr>]\<rparr>;
         g = addNode g \<lparr>id_node = 14, text_node = text14,
           choices = []\<rparr>;
         g = addNode g \<lparr>id_node = 15, text_node = text15,
           choices = []\<rparr>
     in g)"

subsection \<open>Game loop\<close>

definition banner :: string where
  "banner =
     ''\<newline>=====================================\<newline>'' @
     ''        THE SIGNAL IN THE NEBULA     \<newline>'' @
     ''=====================================\<newline>\<newline>''"

text \<open>\<^verbatim>\<open>pauseDots()\<close> with its default of three dots.\<close>

definition pauseDots :: string where
  "pauseDots = replicate 3 CHR ''.'' @ ''\<newline>''"

text \<open>The cast \<^verbatim>\<open>(int)node->choices.size()\<close> of a \<^verbatim>\<open>size_t\<close> to a 32-bit \<^verbatim>\<open>int\<close>.\<close>

definition int_of_size :: "nat \<Rightarrow> int" where
  "int_of_size n = (let m = int n mod 2 ^ 32 in if m < 2 ^ 31 then m else m - 2 ^ 32)"

text \<open>The summary line \<^verbatim>\<open>Path Taken:\<close> and the numbered menu, each a loop over indices.\<close>

definition path :: "int list \<Rightarrow> string" where
  "path h =
     concat (map (\<lambda>i. show_int (h ! i) @ (if i + 1 < length h then '' -> '' else []))
                 [0 ..< length h])"

definition menu :: "Choice list \<Rightarrow> string" where
  "menu cs =
     concat (map (\<lambda>i. ''  '' @ show_nat (i + 1) @ '') '' @ label (cs ! i) @ ''\<newline>'')
                 [0 ..< length cs])"

text \<open>
  The state of \<^verbatim>\<open>main\<close>: its locals \<^verbatim>\<open>currentId\<close> and \<^verbatim>\<open>history\<close>, and the two streams.
\<close>

record Session =
  currentId :: int
  history :: "int list"
  cin :: "string list"
  cout :: string

text \<open>
  What one turn of the \<^verbatim>\<open>while (true)\<close> of \<^verbatim>\<open>main\<close> ends in: the next turn, \<^verbatim>\<open>break\<close>,
  \<^verbatim>\<open>return\<close> with a status, an exception passing through, or a read of \<^verbatim>\<open>node->choices\<close>
  outside the vector, which C++ leaves undefined.
\<close>

datatype flow = Next Session | Break Session | Return int Session | Throw exn | OutOfBounds

definition loopBody :: "StoryGraph \<Rightarrow> Session \<Rightarrow> flow" where
  "loopBody graph s =
     (case get graph (currentId s) of
        None \<Rightarrow>
          Return 1 (s\<lparr>cout := cout s @ ''ERROR: Missing node '' @ show_int (currentId s) @ ''\<newline>''\<rparr>)
      | Some node \<Rightarrow>
          let s = s\<lparr>history := history s @ [id_node node]\<rparr>;
              s = s\<lparr>cout := cout s @ ''\<newline>-------------------------------------\<newline>''\<rparr>;
              s = s\<lparr>cout := cout s @ text_node node @ ''\<newline>''\<rparr>
          in if isEnding node then
               Break (s\<lparr>cout := cout s @ ''-------------------------------------\<newline>'' @
                        ''Path Taken: '' @ path (history s) @
                        ''\<newline>\<newline>Farewell, Elyndri explorer.\<newline>''\<rparr>)
             else
               let s = s\<lparr>cout := cout s @ menu (choices node) @ ''\<newline>''\<rparr>
               in case readMenuChoice (int_of_size (length (choices node))) (cin s) (cout s) of
                    Inl e \<Rightarrow> Throw e
                  | Inr (pick, inp, out) \<Rightarrow>
                      if 1 \<le> pick \<and> pick \<le> int (length (choices node)) then
                        Next (s\<lparr>currentId := nextId (choices node ! nat (pick - 1)),
                                cin := inp, cout := out @ pauseDots\<rparr>)
                      else OutOfBounds)"

text \<open>
  How the program ends: \<^verbatim>\<open>main\<close> returns a status, or an exception nobody caught reaches
  \<^verbatim>\<open>std::terminate\<close>, or the behaviour is undefined. The loop can run for ever (a cycle of
  the graph, on a closed \<^verbatim>\<open>cin\<close>), which is the value \<open>None\<close>.
\<close>

datatype result = Exit int Session | Uncaught exn | Undefined

partial_function (option) gameLoop :: "StoryGraph \<Rightarrow> Session \<Rightarrow> result option" where
  "gameLoop graph s =
     (case loopBody graph s of
        Next s' \<Rightarrow> gameLoop graph s'
      | Break s' \<Rightarrow> Some (Exit 0 s')
      | Return status s' \<Rightarrow> Some (Exit status s')
      | Throw e \<Rightarrow> Some (Uncaught e)
      | OutOfBounds \<Rightarrow> Some Undefined)"

declare gameLoop.simps [code]

text \<open>\<^verbatim>\<open>main\<close>, given the lines waiting on \<^verbatim>\<open>cin\<close>.\<close>

definition main :: "string list \<Rightarrow> result option" where
  "main inp =
     (let graph = buildGame;
          out = banner @ ''A narrative of first contact and transcendence.\<newline>'' @ pauseDots
      in gameLoop graph \<lparr>currentId = 0, history = [], cin = inp, cout = out\<rparr>)"

section \<open>Properties\<close>

subsection \<open>Lines of digits and \<^verbatim>\<open>stoi\<close>\<close>

lemma numeric_foldl: "foldl (\<lambda>b c. if \<not> isdigit c then False else b) b0 line = (b0 \<and> (\<forall>c\<in>set line. isdigit c))"
  by (induction line arbitrary: b0) auto

lemma numeric_iff: "numeric line = (\<forall>c\<in>set line. isdigit c)"
  by (simp add: numeric_def numeric_foldl)

lemma isdigit_not_space: "isdigit c \<Longrightarrow> \<not> isspace c"
  by (auto simp: isdigit_def isspace_def Let_def)

lemma isdigit_not_sign: "isdigit c \<Longrightarrow> c \<noteq> CHR ''-'' \<and> c \<noteq> CHR ''+''"
  by (auto simp: isdigit_def)

lemma digit_val_nonneg: "isdigit c \<Longrightarrow> 0 \<le> digit_val c"
  by (auto simp: isdigit_def digit_val_def Let_def)

lemma decimal_foldl_nonneg: "\<forall>c\<in>set ds. isdigit c \<Longrightarrow> 0 \<le> a \<Longrightarrow> 0 \<le> foldl (\<lambda>acc c. 10 * acc + digit_val c) a ds"
  by (induction ds arbitrary: a) (auto simp: digit_val_nonneg)

lemma decimal_nonneg: "\<forall>c\<in>set ds. isdigit c \<Longrightarrow> 0 \<le> decimal ds"
  by (simp add: decimal_def decimal_foldl_nonneg)

lemma stoi_digits:
  assumes "line \<noteq> []" "\<forall>c\<in>set line. isdigit c"
  shows "stoi line = (if INT_MAX < decimal line then Inl out_of_range else Inr (decimal line))"
proof -
  obtain c cs where l: "line = c # cs" using assms(1) by (cases line) auto
  have d: "isdigit c" using assms(2) l by simp
  have s1: "dropWhile isspace line = line" using l d isdigit_not_space by simp
  have tw: "takeWhile isdigit line = line" using assms(2) by simp
  have nn: "0 \<le> decimal line" using assms(2) by (rule decimal_nonneg)
  have "\<not> decimal line < INT_MIN" using nn by (simp add: INT_MIN_def)
  then show ?thesis using s1 tw l isdigit_not_sign[OF d] assms(1)
    by (simp add: stoi_def Let_def)
qed

text \<open>One turn of the loop of \<^verbatim>\<open>readMenuChoice\<close>, by the kind of line it reads.\<close>

lemma readMenuChoice_empty:
  "readMenuChoice maxOpt ([] # inp) out = readMenuChoice maxOpt inp (out @ prompt maxOpt)"
  by simp

lemma readMenuChoice_not_number:
  "\<exists>c\<in>set line. \<not> isdigit c \<Longrightarrow>
   readMenuChoice maxOpt (line # inp) out =
   readMenuChoice maxOpt inp (out @ prompt maxOpt @ ''Please enter a number.\<newline>'')"
  by (auto simp: numeric_iff Let_def)

lemma readMenuChoice_digits:
  assumes "line \<noteq> []" "\<forall>c\<in>set line. isdigit c"
  shows "readMenuChoice maxOpt (line # inp) out =
     (if INT_MAX < decimal line then Inl out_of_range
      else if decimal line < 1 \<or> maxOpt < decimal line then
        readMenuChoice maxOpt inp (out @ prompt maxOpt @ ''Please choose a valid option.\<newline>'')
      else Inr (decimal line, inp, out @ prompt maxOpt))"
  using assms by (simp add: numeric_iff Let_def stoi_digits)

lemma readMenuChoice_output:
  "readMenuChoice maxOpt inp out = Inr (k, inp', out') \<Longrightarrow>
   length out + length (prompt maxOpt) \<le> length out' \<and> length inp' \<le> length inp"
proof (induction inp arbitrary: out)
  case Nil
  then show ?case by auto
next
  case (Cons line inp)
  show ?case
  proof (cases "line = []")
    case True
    with Cons.prems have "readMenuChoice maxOpt inp (out @ prompt maxOpt) = Inr (k, inp', out')" by simp
    from Cons.IH[OF this] show ?thesis by simp
  next
    case ne: False
    show ?thesis
    proof (cases "\<forall>c\<in>set line. isdigit c")
      case False
      then have "\<exists>c\<in>set line. \<not> isdigit c" by blast
      from readMenuChoice_not_number[OF this] Cons.prems
      have "readMenuChoice maxOpt inp (out @ prompt maxOpt @ ''Please enter a number.\<newline>'') = Inr (k, inp', out')"
        by (simp del: readMenuChoice.simps)
      from Cons.IH[OF this] show ?thesis by simp
    next
      case True
      note eq = readMenuChoice_digits[OF ne True, of maxOpt inp out]
      show ?thesis
      proof (cases "INT_MAX < decimal line")
        case True
        with eq Cons.prems show ?thesis by (simp del: readMenuChoice.simps)
      next
        case nov: False
        show ?thesis
        proof (cases "decimal line < 1 \<or> maxOpt < decimal line")
          case True
          with eq nov Cons.prems
          have "readMenuChoice maxOpt inp (out @ prompt maxOpt @ ''Please choose a valid option.\<newline>'') = Inr (k, inp', out')"
            by (simp del: readMenuChoice.simps)
          from Cons.IH[OF this] show ?thesis by simp
        next
          case False
          with eq nov Cons.prems show ?thesis by (auto simp del: readMenuChoice.simps)
        qed
      qed
    qed
  qed
qed

lemma readMenuChoice_range:
  "readMenuChoice maxOpt inp out = Inr (k, inp', out') \<Longrightarrow> 1 \<le> k \<and> (k \<le> maxOpt \<or> k = 1)"
proof (induction inp arbitrary: out)
  case Nil
  then show ?case by auto
next
  case (Cons line inp)
  then show ?case
    by (auto simp: Let_def split: if_splits sum.splits)
qed

subsection \<open>Input validation\<close>

text \<open>
  C4. Whatever the bound \<open>maxOpt\<close> (an \<^verbatim>\<open>int\<close>, so at most \<open>INT_MAX\<close>), one turn of
  \<^verbatim>\<open>readMenuChoice\<close> on the line it reads: an empty line prints nothing and the prompt comes
  again; a line with a character that is not a digit prints \<^verbatim>\<open>Please enter a number.\<close> and
  the prompt comes again; a line of digits that \<^verbatim>\<open>stoi\<close> parses to a value below 1 or above
  \<open>maxOpt\<close> prints \<^verbatim>\<open>Please choose a valid option.\<close> and the prompt comes again; and the
  function returns \<open>k\<close> on this very line (the rest of the input untouched, one prompt
  printed) exactly when the line is a non-empty string of digits whose value \<open>k\<close> lies in
  \<open>[1, maxOpt]\<close>.
\<close>

theorem readMenuChoice_validates:
  assumes "maxOpt \<le> INT_MAX"
  shows "readMenuChoice maxOpt ([] # inp) out = readMenuChoice maxOpt inp (out @ prompt maxOpt)
    \<and> ((\<exists>c\<in>set l1. \<not> isdigit c) \<longrightarrow>
         readMenuChoice maxOpt (l1 # inp) out =
         readMenuChoice maxOpt inp (out @ prompt maxOpt @ ''Please enter a number.\<newline>''))
    \<and> (l2 \<noteq> [] \<and> (\<forall>c\<in>set l2. isdigit c) \<and> stoi l2 = Inr v \<and> (v < 1 \<or> maxOpt < v) \<longrightarrow>
         readMenuChoice maxOpt (l2 # inp) out =
         readMenuChoice maxOpt inp (out @ prompt maxOpt @ ''Please choose a valid option.\<newline>''))
    \<and> (readMenuChoice maxOpt (l3 # inp) out = Inr (k, inp, out @ prompt maxOpt) \<longleftrightarrow>
         l3 \<noteq> [] \<and> (\<forall>c\<in>set l3. isdigit c) \<and> decimal l3 = k \<and> 1 \<le> k \<and> k \<le> maxOpt)"
proof (intro conjI impI)
  show "readMenuChoice maxOpt ([] # inp) out = readMenuChoice maxOpt inp (out @ prompt maxOpt)"
    by (rule readMenuChoice_empty)
next
  assume "\<exists>c\<in>set l1. \<not> isdigit c"
  then show "readMenuChoice maxOpt (l1 # inp) out =
         readMenuChoice maxOpt inp (out @ prompt maxOpt @ ''Please enter a number.\<newline>'')"
    by (rule readMenuChoice_not_number)
next
  assume a: "l2 \<noteq> [] \<and> (\<forall>c\<in>set l2. isdigit c) \<and> stoi l2 = Inr v \<and> (v < 1 \<or> maxOpt < v)"
  then have sd: "stoi l2 = (if INT_MAX < decimal l2 then Inl out_of_range else Inr (decimal l2))"
    by (intro stoi_digits) auto
  from a have sv: "stoi l2 = Inr v" by simp
  from sd sv have "\<not> INT_MAX < decimal l2" "decimal l2 = v" by (auto split: if_splits)
  with a show "readMenuChoice maxOpt (l2 # inp) out =
         readMenuChoice maxOpt inp (out @ prompt maxOpt @ ''Please choose a valid option.\<newline>'')"
    using readMenuChoice_digits[of l2 maxOpt inp out] by (simp del: readMenuChoice.simps)
next
  have later: False
    if "readMenuChoice maxOpt inp (out @ prompt maxOpt @ msg) = Inr (k, inp, out @ prompt maxOpt)" for msg
    using readMenuChoice_output[OF that] by (simp add: prompt_def)
  show "readMenuChoice maxOpt (l3 # inp) out = Inr (k, inp, out @ prompt maxOpt) \<longleftrightarrow>
         l3 \<noteq> [] \<and> (\<forall>c\<in>set l3. isdigit c) \<and> decimal l3 = k \<and> 1 \<le> k \<and> k \<le> maxOpt"
  proof
    assume r: "readMenuChoice maxOpt (l3 # inp) out = Inr (k, inp, out @ prompt maxOpt)"
    have ne: "l3 \<noteq> []"
    proof
      assume "l3 = []"
      with r have "readMenuChoice maxOpt inp (out @ prompt maxOpt @ []) = Inr (k, inp, out @ prompt maxOpt)"
        by simp
      then show False by (rule later)
    qed
    have dg: "\<forall>c\<in>set l3. isdigit c"
    proof (rule ccontr)
      assume "\<not> (\<forall>c\<in>set l3. isdigit c)"
      then have "\<exists>c\<in>set l3. \<not> isdigit c" by blast
      from readMenuChoice_not_number[OF this, of maxOpt inp out] r
      have "readMenuChoice maxOpt inp (out @ prompt maxOpt @ ''Please enter a number.\<newline>'') =
            Inr (k, inp, out @ prompt maxOpt)" by (simp del: readMenuChoice.simps)
      then show False by (rule later)
    qed
    note eq = readMenuChoice_digits[OF ne dg, of maxOpt inp out]
    have nov: "\<not> INT_MAX < decimal l3" using eq r by (auto simp del: readMenuChoice.simps)
    have inr: "\<not> (decimal l3 < 1 \<or> maxOpt < decimal l3)"
    proof
      assume "decimal l3 < 1 \<or> maxOpt < decimal l3"
      with eq nov r
      have "readMenuChoice maxOpt inp (out @ prompt maxOpt @ ''Please choose a valid option.\<newline>'') =
            Inr (k, inp, out @ prompt maxOpt)" by (simp del: readMenuChoice.simps)
      then show False by (rule later)
    qed
    from eq nov inr r have "decimal l3 = k" by (simp del: readMenuChoice.simps)
    with ne dg inr show "l3 \<noteq> [] \<and> (\<forall>c\<in>set l3. isdigit c) \<and> decimal l3 = k \<and> 1 \<le> k \<and> k \<le> maxOpt"
      by auto
  next
    assume v: "l3 \<noteq> [] \<and> (\<forall>c\<in>set l3. isdigit c) \<and> decimal l3 = k \<and> 1 \<le> k \<and> k \<le> maxOpt"
    then have "\<not> INT_MAX < decimal l3" using assms by simp
    with v show "readMenuChoice maxOpt (l3 # inp) out = Inr (k, inp, out @ prompt maxOpt)"
      using readMenuChoice_digits[of l3 maxOpt inp out] by (auto simp del: readMenuChoice.simps)
  qed
qed

text \<open>
  The inputs of the specification's robustness test against \<open>maxOpt = 2\<close>: the lines
  \<^verbatim>\<open>abc\<close> and \<^verbatim>\<open>99\<close> and the empty line are turned down, the line \<^verbatim>\<open>2\<close> is taken.
\<close>

theorem readMenuChoice_validates_witness:
  "(2::int) \<le> INT_MAX
   \<and> readMenuChoice 2 ([] # [''1'']) [] = readMenuChoice 2 [''1''] ([] @ prompt 2)
   \<and> (\<exists>c\<in>set ''abc''. \<not> isdigit c)
   \<and> readMenuChoice 2 (''abc'' # [''1'']) [] =
       readMenuChoice 2 [''1''] ([] @ prompt 2 @ ''Please enter a number.\<newline>'')
   \<and> numeric ''99'' \<and> stoi ''99'' = Inr 99
   \<and> readMenuChoice 2 (''99'' # [''1'']) [] =
       readMenuChoice 2 [''1''] ([] @ prompt 2 @ ''Please choose a valid option.\<newline>'')
   \<and> numeric ''2'' \<and> decimal ''2'' = 2
   \<and> readMenuChoice 2 (''2'' # [''1'']) [] = Inr (2, [''1''], [] @ prompt 2)"
proof -
  have h: "(2::int) \<le> INT_MAX" by (simp add: INT_MAX_def)
  have d1: "\<exists>c\<in>set ''abc''. \<not> isdigit c" by (simp add: isdigit_def)
  have d2: "\<forall>c\<in>set ''99''. isdigit c" by (simp add: isdigit_def)
  have d3: "\<forall>c\<in>set ''2''. isdigit c" by (simp add: isdigit_def)
  have s2: "stoi ''99'' = Inr 99"
    by (simp add: stoi_def isspace_def isdigit_def decimal_def digit_val_def INT_MIN_def INT_MAX_def)
  have v3: "decimal ''2'' = 2" by (simp add: decimal_def digit_val_def)
  from readMenuChoice_validates[OF h, of "[''1'']" "[]" "''abc''" "''99''" 99 "''2''" 2] d1 d2 d3 s2 v3 h
  show ?thesis by (simp add: numeric_iff del: readMenuChoice.simps)
qed

subsection \<open>A number too large for an \<^verbatim>\<open>int\<close>\<close>

text \<open>
  A line of digits passes the test \<^verbatim>\<open>numeric\<close> whatever its length, and \<^verbatim>\<open>stoi\<close> throws
  \<^verbatim>\<open>std::out_of_range\<close> when its value is above \<open>INT_MAX\<close>; \<^verbatim>\<open>readMenuChoice\<close> has no
  handler, so the exception leaves it.
\<close>

lemma readMenuChoice_too_large:
  "line \<noteq> [] \<Longrightarrow> \<forall>c\<in>set line. isdigit c \<Longrightarrow> INT_MAX < decimal line \<Longrightarrow>
   readMenuChoice maxOpt (line # inp) out = Inl out_of_range"
  by (simp add: readMenuChoice_digits del: readMenuChoice.simps)

text \<open>
  C5. The specification asks that a line whose parse fails, in particular a line of digits
  too large for the integer type, be turned down as not a number and the prompt come again.
  On the line \<^verbatim>\<open>99999999999\<close> the code does neither: \<^verbatim>\<open>readMenuChoice(2)\<close> ends by the
  exception \<^verbatim>\<open>std::out_of_range\<close>, whatever lines follow.
\<close>

theorem readMenuChoice_overflow_uncaught:
  "readMenuChoice 2 (''99999999999'' # inp) out = Inl out_of_range"
  by (simp add: numeric_def isdigit_def stoi_def isspace_def decimal_def digit_val_def
      INT_MIN_def INT_MAX_def)

subsection \<open>The input stream fails\<close>

text \<open>
  C6. When \<^verbatim>\<open>getline\<close> fails, \<^verbatim>\<open>readMenuChoice\<close> returns 1, for every \<open>maxOpt\<close>: at once on
  a stream with no line left, and likewise when the stream ends after any number of lines
  that were turned down (empty, not a number, or a number outside \<open>[1, maxOpt]\<close>). The
  function is total, so it does not loop for ever, and the result is a value, not an
  exception.
\<close>

theorem readMenuChoice_stream_failure:
  "readMenuChoice maxOpt [] out = Inr (1, [], out @ prompt maxOpt)
   \<and> ((\<forall>line\<in>set ls. line = [] \<or> \<not> numeric line \<or> (\<exists>v. stoi line = Inr v \<and> (v < 1 \<or> maxOpt < v)))
        \<longrightarrow> (\<exists>out'. readMenuChoice maxOpt ls out = Inr (1, [], out')))"
proof
  show "readMenuChoice maxOpt [] out = Inr (1, [], out @ prompt maxOpt)" by simp
next
  show "(\<forall>line\<in>set ls. line = [] \<or> \<not> numeric line \<or> (\<exists>v. stoi line = Inr v \<and> (v < 1 \<or> maxOpt < v)))
        \<longrightarrow> (\<exists>out'. readMenuChoice maxOpt ls out = Inr (1, [], out'))"
  proof (induction ls arbitrary: out)
    case Nil
    show ?case by simp
  next
    case (Cons line ls)
    show ?case
    proof
      assume a: "\<forall>l\<in>set (line # ls). l = [] \<or> \<not> numeric l \<or> (\<exists>v. stoi l = Inr v \<and> (v < 1 \<or> maxOpt < v))"
      then have rest: "\<forall>l\<in>set ls. l = [] \<or> \<not> numeric l \<or> (\<exists>v. stoi l = Inr v \<and> (v < 1 \<or> maxOpt < v))"
        by simp
      from a have "line = [] \<or> \<not> numeric line \<or> (\<exists>v. stoi line = Inr v \<and> (v < 1 \<or> maxOpt < v))"
        by simp
      then have "\<exists>out1. readMenuChoice maxOpt (line # ls) out = readMenuChoice maxOpt ls out1"
        by (auto simp: Let_def)
      then obtain out1 where "readMenuChoice maxOpt (line # ls) out = readMenuChoice maxOpt ls out1" ..
      with Cons.IH[of out1] rest show "\<exists>out'. readMenuChoice maxOpt (line # ls) out = Inr (1, [], out')"
        by (simp del: readMenuChoice.simps)
    qed
  qed
qed

theorem readMenuChoice_stream_failure_witness:
  "numeric ''0'' \<and> stoi ''0'' = Inr 0 \<and> \<not> numeric ''abc''
   \<and> (\<exists>out'. readMenuChoice 2 ['''', ''abc'', ''0''] [] = Inr (1, [], out'))"
proof -
  have n0: "numeric ''0''" by (simp add: numeric_def isdigit_def)
  have s0: "stoi ''0'' = Inr 0"
    by (simp add: stoi_def isspace_def isdigit_def decimal_def digit_val_def INT_MIN_def INT_MAX_def)
  have na: "\<not> numeric ''abc''" by (simp add: numeric_def isdigit_def)
  from readMenuChoice_stream_failure[of 2 "[]" "['''', ''abc'', ''0'']"] n0 s0 na
  show ?thesis by (simp del: readMenuChoice.simps)
qed

subsection \<open>The story graph\<close>

lemma get_addNode: "get (addNode g n) i = (if i = id_node n then Some n else get g i)"
  by (simp add: get_def addNode_def)

lemma get_emptyGraph: "get emptyGraph i = None"
  by (simp add: get_def emptyGraph_def)

lemma find_app:
  "List.find P (xs @ ys) = (case List.find P xs of None \<Rightarrow> List.find P ys | Some x \<Rightarrow> Some x)"
  by (induction xs) auto

lemma get_foldl_addNode:
  "get (foldl addNode g ns) i =
   (case List.find (\<lambda>n. id_node n = i) (rev ns) of None \<Rightarrow> get g i | Some n \<Rightarrow> Some n)"
proof (induction ns arbitrary: g)
  case Nil
  show ?case by simp
next
  case (Cons n ns)
  show ?case
    by (simp add: Cons.IH get_addNode find_app split: option.splits)
qed

text \<open>
  C9. \<^verbatim>\<open>addNode\<close> is a total function (it cannot fail); after it, \<^verbatim>\<open>get\<close> of the node's id
  returns that node, replacing whatever was there. After any sequence of \<^verbatim>\<open>addNode\<close> on
  an empty graph, \<^verbatim>\<open>get\<close> of an id returns the node added last with that id, and for an
  id that was never added it returns the absent result \<open>None\<close> (the null pointer).
\<close>

theorem StoryGraph_contract:
  "get (addNode g node) (id_node node) = Some node
   \<and> get (foldl addNode emptyGraph ns) i = List.find (\<lambda>n. id_node n = i) (rev ns)
   \<and> (i \<notin> id_node ` set ns \<longrightarrow> get (foldl addNode emptyGraph ns) i = None)"
proof (intro conjI impI)
  show "get (addNode g node) (id_node node) = Some node" by (simp add: get_addNode)
next
  show f: "get (foldl addNode emptyGraph ns) i = List.find (\<lambda>n. id_node n = i) (rev ns)"
    by (simp add: get_foldl_addNode get_emptyGraph split: option.splits)
  assume "i \<notin> id_node ` set ns"
  then have "List.find (\<lambda>n. id_node n = i) (rev ns) = None"
    by (auto simp: find_None_iff)
  with f show "get (foldl addNode emptyGraph ns) i = None" by simp
qed

theorem StoryGraph_contract_witness:
  "(7::int) \<notin> id_node ` set [\<lparr>id_node = 3, text_node = ''a'', choices = []\<rparr>,
                              \<lparr>id_node = 3, text_node = ''b'', choices = []\<rparr>]
   \<and> get (foldl addNode emptyGraph [\<lparr>id_node = 3, text_node = ''a'', choices = []\<rparr>,
                                     \<lparr>id_node = 3, text_node = ''b'', choices = []\<rparr>]) 7 = None
   \<and> get (foldl addNode emptyGraph [\<lparr>id_node = 3, text_node = ''a'', choices = []\<rparr>,
                                     \<lparr>id_node = 3, text_node = ''b'', choices = []\<rparr>]) 3
       = Some \<lparr>id_node = 3, text_node = ''b'', choices = []\<rparr>"
  using StoryGraph_contract[of emptyGraph "\<lparr>id_node = 3, text_node = ''a'', choices = []\<rparr>"
      "[\<lparr>id_node = 3, text_node = ''a'', choices = []\<rparr>, \<lparr>id_node = 3, text_node = ''b'', choices = []\<rparr>]" 7]
    StoryGraph_contract[of emptyGraph "\<lparr>id_node = 3, text_node = ''a'', choices = []\<rparr>"
      "[\<lparr>id_node = 3, text_node = ''a'', choices = []\<rparr>, \<lparr>id_node = 3, text_node = ''b'', choices = []\<rparr>]" 3]
  by simp

subsection \<open>One turn of the game loop\<close>

lemma int_of_size_le: "int_of_size n \<le> int n"
proof -
  have "int n mod 2 ^ 32 \<le> int n" by (rule zmod_le_nonneg_dividend) simp
  then show ?thesis by (simp add: int_of_size_def Let_def)
qed

lemma int_of_size_small: "n < 2 ^ 31 \<Longrightarrow> int_of_size n = int n"
  by (simp add: int_of_size_def Let_def)

text \<open>The three branches of the loop body: no such node, an ending, a menu.\<close>

lemma loopBody_missing:
  "get graph (currentId s) = None \<Longrightarrow>
   loopBody graph s =
   Return 1 (s\<lparr>cout := cout s @ ''ERROR: Missing node '' @ show_int (currentId s) @ ''\<newline>''\<rparr>)"
  by (simp add: loopBody_def)

lemma loopBody_ending:
  "get graph (currentId s) = Some node \<Longrightarrow> isEnding node \<Longrightarrow>
   loopBody graph s =
   Break (s\<lparr>history := history s @ [id_node node],
            cout := (cout s @ ''\<newline>-------------------------------------\<newline>'' @ text_node node @ ''\<newline>'') @ ''-------------------------------------\<newline>'' @
                    ''Path Taken: '' @ path (history s @ [id_node node]) @
                    ''\<newline>\<newline>Farewell, Elyndri explorer.\<newline>''\<rparr>)"
  by (simp add: loopBody_def Let_def)

lemma loopBody_menu:
  "get graph (currentId s) = Some node \<Longrightarrow> \<not> isEnding node \<Longrightarrow>
   loopBody graph s =
   (case readMenuChoice (int_of_size (length (choices node))) (cin s)
           ((cout s @ ''\<newline>-------------------------------------\<newline>'' @ text_node node @ ''\<newline>'') @ menu (choices node) @ ''\<newline>'') of
      Inl e \<Rightarrow> Throw e
    | Inr (pick, inp, out) \<Rightarrow>
        if 1 \<le> pick \<and> pick \<le> int (length (choices node)) then
          Next (s\<lparr>currentId := nextId (choices node ! nat (pick - 1)),
                  history := history s @ [id_node node], cin := inp, cout := out @ pauseDots\<rparr>)
        else OutOfBounds)"
  by (cases "readMenuChoice (int_of_size (length (choices node))) (cin s)
           ((cout s @ ''\<newline>-------------------------------------\<newline>'' @ text_node node @ ''\<newline>'') @ menu (choices node) @ ''\<newline>'')")
     (auto simp: loopBody_def Let_def simp del: readMenuChoice.simps)

text \<open>The number that \<^verbatim>\<open>readMenuChoice\<close> returns always indexes the vector of choices.\<close>

lemma pick_in_range:
  assumes "choices node \<noteq> []"
    and "readMenuChoice (int_of_size (length (choices node))) inp out = Inr (k, inp', out')"
  shows "1 \<le> k \<and> k \<le> int (length (choices node))"
proof -
  from readMenuChoice_range[OF assms(2)]
  have "1 \<le> k" and "k \<le> int_of_size (length (choices node)) \<or> k = 1" by auto
  moreover have "int_of_size (length (choices node)) \<le> int (length (choices node))"
    by (rule int_of_size_le)
  moreover have "1 \<le> int (length (choices node))" using assms(1) by (cases "choices node") auto
  ultimately show ?thesis by auto
qed

lemma loopBody_pick:
  assumes "get graph (currentId s) = Some node"
    and "choices node \<noteq> []"
    and "readMenuChoice (int_of_size (length (choices node))) (cin s)
           ((cout s @ ''\<newline>-------------------------------------\<newline>'' @ text_node node @ ''\<newline>'') @ menu (choices node) @ ''\<newline>'') = Inr (k, inp, out)"
  shows "loopBody graph s =
        Next (s\<lparr>currentId := nextId (choices node ! nat (k - 1)),
                history := history s @ [id_node node], cin := inp, cout := out @ pauseDots\<rparr>)"
proof -
  have ne: "\<not> isEnding node" using assms(2) by (simp add: isEnding_def)
  have "1 \<le> k \<and> k \<le> int (length (choices node))"
    using assms(2,3) by (rule pick_in_range)
  with loopBody_menu[OF assms(1) ne] assms(3) show ?thesis
    by (simp del: readMenuChoice.simps)
qed

lemma loopBody_in_bounds: "loopBody graph s \<noteq> OutOfBounds"
proof (cases "get graph (currentId s)")
  case None
  then show ?thesis by (simp add: loopBody_missing)
next
  case (Some node)
  show ?thesis
  proof (cases "isEnding node")
    case True
    with Some show ?thesis by (simp add: loopBody_ending)
  next
    case False
    then have ne: "choices node \<noteq> []" by (simp add: isEnding_def)
    show ?thesis
      using pick_in_range[OF ne]
      by (auto simp: loopBody_menu[OF Some False] simp del: readMenuChoice.simps split: sum.splits)
  qed
qed

lemma loopBody_Break:
  "loopBody graph s = Break s' \<Longrightarrow> \<exists>node. get graph (currentId s) = Some node \<and> isEnding node"
  by (auto simp: loopBody_def Let_def split: option.splits if_splits sum.splits prod.splits)

text \<open>Lines that are taken as they stand.\<close>

lemma readMenuChoice_accepts:
  "line \<noteq> [] \<Longrightarrow> numeric line \<Longrightarrow> stoi line = Inr k \<Longrightarrow> 1 \<le> k \<Longrightarrow> k \<le> maxOpt \<Longrightarrow>
   readMenuChoice maxOpt (line # inp) out = Inr (k, inp, out @ prompt maxOpt)"
  by (simp add: Let_def)

lemma stoi_1: "stoi ''1'' = Inr 1"
  by (simp add: stoi_def isspace_def isdigit_def decimal_def digit_val_def INT_MIN_def INT_MAX_def)

lemma stoi_2: "stoi ''2'' = Inr 2"
  by (simp add: stoi_def isspace_def isdigit_def decimal_def digit_val_def INT_MIN_def INT_MAX_def)

lemma numeric_1: "numeric ''1''"
  by (simp add: numeric_def isdigit_def)

lemma numeric_2: "numeric ''2''"
  by (simp add: numeric_def isdigit_def)

subsection \<open>Menu correspondence\<close>

text \<open>
  C1. The current scene has the choices \<open>c1, ..., cn\<close> with \<open>n \<ge> 1\<close>, its text and menu are
  printed, and \<^verbatim>\<open>readMenuChoice\<close> returns \<open>k\<close>. Then \<open>k\<close> lies in \<open>[1, n]\<close> and the turn of the
  loop ends with \<^verbatim>\<open>currentId\<close> set to the \<^verbatim>\<open>nextId\<close> of the \<open>k\<close>-th choice, \<open>choices[k-1]\<close>, and
  to nothing else: the state after the turn is given in full.
\<close>

theorem menu_correspondence:
  assumes "get graph (currentId s) = Some node"
    and "choices node \<noteq> []"
    and "readMenuChoice (int_of_size (length (choices node))) (cin s)
           ((cout s @ ''\<newline>-------------------------------------\<newline>'' @ text_node node @ ''\<newline>'') @ menu (choices node) @ ''\<newline>'') = Inr (k, inp, out)"
  shows "1 \<le> k \<and> k \<le> int (length (choices node))
    \<and> loopBody graph s =
        Next (s\<lparr>currentId := nextId (choices node ! nat (k - 1)),
                history := history s @ [id_node node], cin := inp, cout := out @ pauseDots\<rparr>)"
  using pick_in_range[OF assms(2,3)] loopBody_pick[OF assms] by simp

text \<open>A scene with three choices, and the line \<^verbatim>\<open>2\<close>: the second choice is followed.\<close>

theorem menu_correspondence_witness:
  "loopBody
     (addNode emptyGraph
        \<lparr>id_node = 0, text_node = ''t'',
           choices = [\<lparr>label = ''a'', nextId = 5\<rparr>, \<lparr>label = ''b'', nextId = 7\<rparr>,
                      \<lparr>label = ''c'', nextId = 9\<rparr>]\<rparr>)
     \<lparr>currentId = 0, history = [], cin = [''2''], cout = []\<rparr>
   = Next \<lparr>currentId = 7, history = [0], cin = [],
        cout = (''\<newline>-------------------------------------\<newline>'' @ ''t'' @ ''\<newline>'' @
                menu [\<lparr>label = ''a'', nextId = 5\<rparr>, \<lparr>label = ''b'', nextId = 7\<rparr>,
                      \<lparr>label = ''c'', nextId = 9\<rparr>] @ ''\<newline>'') @ prompt 3 @ pauseDots\<rparr>"
proof -
  let ?node = "\<lparr>id_node = 0, text_node = ''t'',
           choices = [\<lparr>label = ''a'', nextId = 5\<rparr>, \<lparr>label = ''b'', nextId = 7\<rparr>,
                      \<lparr>label = ''c'', nextId = 9\<rparr>]\<rparr>"
  let ?s = "\<lparr>currentId = 0, history = [], cin = [''2''], cout = []\<rparr>"
  have g: "get (addNode emptyGraph ?node) (currentId ?s) = Some ?node"
    by (simp add: get_addNode)
  have c: "choices ?node \<noteq> []" by simp
  have r: "readMenuChoice (int_of_size (length (choices ?node))) (cin ?s)
           ((cout ?s @ ''\<newline>-------------------------------------\<newline>'' @ text_node ?node @ ''\<newline>'') @ menu (choices ?node) @ ''\<newline>'')
         = Inr (2, [], ((cout ?s @ ''\<newline>-------------------------------------\<newline>'' @ text_node ?node @ ''\<newline>'') @ menu (choices ?node) @ ''\<newline>'') @ prompt 3)"
    by (simp add: int_of_size_small readMenuChoice_accepts numeric_2 stoi_2 del: readMenuChoice.simps)
  from menu_correspondence[OF g c r] show ?thesis by simp
qed

subsection \<open>Terminal detection\<close>

text \<open>
  C2. \<^verbatim>\<open>isEnding\<close> holds exactly of the scenes whose list of choices is empty. When the
  current scene is an ending, in whatever state the loop is (whatever history, input and
  output led there), the session ends in this turn with status 0: the scene's id joins the
  history, its text and the path summary are printed, no menu and no prompt is, no line is
  read and \<^verbatim>\<open>currentId\<close> does not move.
\<close>

theorem terminal_detection:
  "(isEnding node \<longleftrightarrow> choices node = [])
   \<and> (get graph (currentId s) = Some node \<and> isEnding node \<longrightarrow>
        gameLoop graph s =
        Some (Exit 0 (s\<lparr>history := history s @ [id_node node],
                        cout := (cout s @ ''\<newline>-------------------------------------\<newline>'' @ text_node node @ ''\<newline>'') @ ''-------------------------------------\<newline>'' @
                                ''Path Taken: '' @ path (history s @ [id_node node]) @
                                ''\<newline>\<newline>Farewell, Elyndri explorer.\<newline>''\<rparr>)))"
proof (intro conjI impI)
  show "isEnding node \<longleftrightarrow> choices node = []" by (simp add: isEnding_def)
next
  assume "get graph (currentId s) = Some node \<and> isEnding node"
  then have "loopBody graph s =
   Break (s\<lparr>history := history s @ [id_node node],
            cout := (cout s @ ''\<newline>-------------------------------------\<newline>'' @ text_node node @ ''\<newline>'') @ ''-------------------------------------\<newline>'' @
                    ''Path Taken: '' @ path (history s @ [id_node node]) @
                    ''\<newline>\<newline>Farewell, Elyndri explorer.\<newline>''\<rparr>)"
    by (simp add: loopBody_ending)
  then show "gameLoop graph s =
        Some (Exit 0 (s\<lparr>history := history s @ [id_node node],
                        cout := (cout s @ ''\<newline>-------------------------------------\<newline>'' @ text_node node @ ''\<newline>'') @ ''-------------------------------------\<newline>'' @
                                ''Path Taken: '' @ path (history s @ [id_node node]) @
                                ''\<newline>\<newline>Farewell, Elyndri explorer.\<newline>''\<rparr>))"
    by (subst gameLoop.simps) (simp only: flow.simps)
qed

text \<open>An ending reached with two scenes behind and a line still waiting on \<^verbatim>\<open>cin\<close>.\<close>

theorem terminal_detection_witness:
  "isEnding \<lparr>id_node = 4, text_node = ''The end.'', choices = []\<rparr>
   \<and> gameLoop (addNode emptyGraph \<lparr>id_node = 4, text_node = ''The end.'', choices = []\<rparr>)
        \<lparr>currentId = 4, history = [0, 2], cin = [''1''], cout = ''x''\<rparr>
     = Some (Exit 0 \<lparr>currentId = 4, history = [0, 2, 4], cin = [''1''],
          cout = ''x'' @ ''\<newline>-------------------------------------\<newline>'' @ ''The end.'' @ ''\<newline>'' @
                 ''-------------------------------------\<newline>'' @ ''Path Taken: '' @ path [0, 2, 4] @
                 ''\<newline>\<newline>Farewell, Elyndri explorer.\<newline>''\<rparr>)"
  using terminal_detection[of "\<lparr>id_node = 4, text_node = ''The end.'', choices = []\<rparr>"
      "addNode emptyGraph \<lparr>id_node = 4, text_node = ''The end.'', choices = []\<rparr>"
      "\<lparr>currentId = 4, history = [0, 2], cin = [''1''], cout = ''x''\<rparr>"]
  by (simp add: get_addNode)

subsection \<open>A missing node\<close>

text \<open>
  When \<^verbatim>\<open>get\<close> returns the null pointer, \<^verbatim>\<open>main\<close> returns 1 in that very turn: the history
  is left as it was, nothing is read, and the one thing printed is the line that names the
  id.
\<close>

lemma missing_node_detected:
  assumes "get graph (currentId s) = None"
  shows "gameLoop graph s =
     Some (Exit 1 (s\<lparr>cout := cout s @ ''ERROR: Missing node '' @ show_int (currentId s) @ ''\<newline>''\<rparr>))"
  by (subst gameLoop.simps) (simp add: loopBody_missing[OF assms])

text \<open>
  The ways the session can end: status 0 at an ending, status 1 at an id with no node, the
  exception of \<^verbatim>\<open>stoi\<close>. The read of \<^verbatim>\<open>choices\<close> is never out of bounds.
\<close>

lemma gameLoop_ends:
  assumes "gameLoop graph s = Some r"
  shows "(\<exists>s' node. r = Exit 0 s' \<and> get graph (currentId s') = Some node \<and> isEnding node)
    \<or> (\<exists>s'. r = Exit 1 s' \<and> get graph (currentId s') = None)
    \<or> (\<exists>e. r = Uncaught e)"
  using assms
proof (induction rule: gameLoop.raw_induct[rotated 1, consumes 1])
  case (1 gameLoop graph s r)
  show ?case
  proof (cases "loopBody graph s")
    case (Next s1)
    with 1 show ?thesis by simp
  next
    case (Break s1)
    from loopBody_Break[OF Break] obtain node where
      n: "get graph (currentId s) = Some node" "isEnding node" by blast
    from loopBody_ending[OF n] Break have "currentId s1 = currentId s" by auto
    with Break 1 n show ?thesis by auto
  next
    case (Return st s1)
    then have "get graph (currentId s) = None \<and> st = 1 \<and> currentId s1 = currentId s"
      by (auto simp: loopBody_def Let_def split: option.splits if_splits sum.splits prod.splits)
    with Return 1 show ?thesis by auto
  next
    case (Throw e)
    with 1 show ?thesis by auto
  next
    case OutOfBounds
    then show ?thesis using loopBody_in_bounds by blast
  qed
qed

subsection \<open>The scenario of three scenes\<close>

text \<open>
  Scene 0 with choices to 1 and 2, scene 1 an ending, scene 2 with one choice to 1; the
  lines \<^verbatim>\<open>2\<close> and \<^verbatim>\<open>1\<close> are waiting on \<^verbatim>\<open>cin\<close>, possibly followed by others.
\<close>

lemma scenario_run:
  fixes t0 t1 t2 l1 l2 l3 :: string
  defines "graph \<equiv>
     addNode (addNode (addNode emptyGraph
       \<lparr>id_node = 0, text_node = t0,
          choices = [\<lparr>label = l1, nextId = 1\<rparr>, \<lparr>label = l2, nextId = 2\<rparr>]\<rparr>)
       \<lparr>id_node = 1, text_node = t1, choices = []\<rparr>)
       \<lparr>id_node = 2, text_node = t2, choices = [\<lparr>label = l3, nextId = 1\<rparr>]\<rparr>"
  shows "\<exists>s'. gameLoop graph \<lparr>currentId = 0, history = [], cin = ''2'' # ''1'' # inp, cout = out\<rparr>
               = Some (Exit 0 s')
           \<and> history s' = [0, 2, 1] \<and> cin s' = inp"
proof -
  let ?n0 = "\<lparr>id_node = 0, text_node = t0,
          choices = [\<lparr>label = l1, nextId = 1\<rparr>, \<lparr>label = l2, nextId = 2\<rparr>]\<rparr>"
  let ?n1 = "\<lparr>id_node = 1, text_node = t1, choices = []\<rparr>"
  let ?n2 = "\<lparr>id_node = 2, text_node = t2, choices = [\<lparr>label = l3, nextId = 1\<rparr>]\<rparr>"
  have g0: "get graph 0 = Some ?n0" and g1: "get graph 1 = Some ?n1" and g2: "get graph 2 = Some ?n2"
    by (simp_all add: graph_def get_addNode)
  let ?s0 = "\<lparr>currentId = 0, history = [], cin = ''2'' # ''1'' # inp, cout = out\<rparr>"
  have r0: "readMenuChoice (int_of_size (length (choices ?n0))) (cin ?s0) out0
            = Inr (2, ''1'' # inp, out0 @ prompt 2)" for out0
    by (simp add: int_of_size_small readMenuChoice_accepts numeric_2 stoi_2 del: readMenuChoice.simps)
  obtain o1 where step0: "loopBody graph ?s0 = Next \<lparr>currentId = 2, history = [0], cin = ''1'' # inp, cout = o1\<rparr>"
    using loopBody_pick[of graph ?s0 ?n0, OF _ _ r0] g0 by simp
  let ?s1 = "\<lparr>currentId = 2, history = [0], cin = ''1'' # inp, cout = o1\<rparr>"
  have r1: "readMenuChoice (int_of_size (length (choices ?n2))) (cin ?s1) out0
            = Inr (1, inp, out0 @ prompt 1)" for out0
    by (simp add: int_of_size_small readMenuChoice_accepts numeric_1 stoi_1 del: readMenuChoice.simps)
  obtain o2 where step1: "loopBody graph ?s1 = Next \<lparr>currentId = 1, history = [0, 2], cin = inp, cout = o2\<rparr>"
    using loopBody_pick[of graph ?s1 ?n2, OF _ _ r1] g2 by simp
  let ?s2 = "\<lparr>currentId = 1, history = [0, 2], cin = inp, cout = o2\<rparr>"
  obtain s' where s': "loopBody graph ?s2 = Break s'" "history s' = [0, 2, 1]" "cin s' = inp"
    using loopBody_ending[of graph ?s2 ?n1] g1 by (simp add: isEnding_def)
  have "gameLoop graph ?s0 = gameLoop graph ?s1"
    by (subst gameLoop.simps) (simp only: step0 flow.simps)
  also have "\<dots> = gameLoop graph ?s2"
    by (subst gameLoop.simps) (simp only: step1 flow.simps)
  also have "\<dots> = Some (Exit 0 s')"
    by (subst gameLoop.simps) (simp only: s' flow.simps)
  finally show ?thesis using s' by simp
qed

text \<open>
  C7. On the graph of scene 0 (choices to 1 and 2), scene 1 (an ending) and scene 2 (one
  choice to 1), whatever the texts and labels, the session that starts at id 0 with an empty
  history and reads the selections 2 and then 1 ends with status 0, at the ending, with
  \<open>history = [0, 2, 1]\<close>.
\<close>

theorem end_to_end_scenario:
  "\<exists>s'. gameLoop
          (addNode (addNode (addNode emptyGraph
             \<lparr>id_node = 0, text_node = t0,
                choices = [\<lparr>label = l1, nextId = 1\<rparr>, \<lparr>label = l2, nextId = 2\<rparr>]\<rparr>)
             \<lparr>id_node = 1, text_node = t1, choices = []\<rparr>)
             \<lparr>id_node = 2, text_node = t2, choices = [\<lparr>label = l3, nextId = 1\<rparr>]\<rparr>)
          \<lparr>currentId = 0, history = [], cin = [''2'', ''1''], cout = out\<rparr>
        = Some (Exit 0 s')
      \<and> history s' = [0, 2, 1] \<and> currentId s' = 1 \<and> cin s' = []"
proof -
  let ?graph = "addNode (addNode (addNode emptyGraph
             \<lparr>id_node = 0, text_node = t0,
                choices = [\<lparr>label = l1, nextId = 1\<rparr>, \<lparr>label = l2, nextId = 2\<rparr>]\<rparr>)
             \<lparr>id_node = 1, text_node = t1, choices = []\<rparr>)
             \<lparr>id_node = 2, text_node = t2, choices = [\<lparr>label = l3, nextId = 1\<rparr>]\<rparr>"
  from scenario_run[of t0 l1 l2 t1 t2 l3 "[]" out] obtain s' where
    run: "gameLoop ?graph \<lparr>currentId = 0, history = [], cin = [''2'', ''1''], cout = out\<rparr> = Some (Exit 0 s')"
    and h: "history s' = [0, 2, 1]" and i: "cin s' = []" by blast
  from gameLoop_ends[OF run] obtain node where
    "get ?graph (currentId s') = Some node" "isEnding node" by auto
  then have "currentId s' = 1"
    by (auto simp: get_addNode get_emptyGraph isEnding_def split: if_splits)
  with run h i show ?thesis by blast
qed

subsection \<open>Determinism\<close>

text \<open>
  Empty lines and lines that are not numbers never reach the selection: dropping them from
  \<^verbatim>\<open>cin\<close> changes what \<^verbatim>\<open>readMenuChoice\<close> prints and nothing else.
\<close>

lemma readMenuChoice_filter:
  "map_sum id (\<lambda>(k, rest, out). (k, filter (\<lambda>l. l \<noteq> [] \<and> numeric l) rest)) (readMenuChoice maxOpt inp out1) =
   map_sum id (\<lambda>(k, rest, out). (k, filter (\<lambda>l. l \<noteq> [] \<and> numeric l) rest))
     (readMenuChoice maxOpt (filter (\<lambda>l. l \<noteq> [] \<and> numeric l) inp) out2)"
proof (induction inp arbitrary: out1 out2)
  case Nil
  show ?case by simp
next
  case (Cons line inp)
  show ?case
  proof (cases "line \<noteq> [] \<and> numeric line")
    case False
    then show ?thesis using Cons.IH by (auto simp: Let_def)
  next
    case True
    show ?thesis
    proof (cases "stoi line")
      case (Inl e)
      with True show ?thesis by (simp add: Let_def)
    next
      case (Inr val)
      with True show ?thesis using Cons.IH by (simp add: Let_def)
    qed
  qed
qed

lemma readMenuChoice_same_selection:
  assumes "filter (\<lambda>l. l \<noteq> [] \<and> numeric l) inp1 = filter (\<lambda>l. l \<noteq> [] \<and> numeric l) inp2"
  shows "map_sum id (\<lambda>(k, rest, out). (k, filter (\<lambda>l. l \<noteq> [] \<and> numeric l) rest)) (readMenuChoice maxOpt inp1 out1) =
   map_sum id (\<lambda>(k, rest, out). (k, filter (\<lambda>l. l \<noteq> [] \<and> numeric l) rest)) (readMenuChoice maxOpt inp2 out2)"
  using readMenuChoice_filter[of maxOpt inp1 out1 "[]"] readMenuChoice_filter[of maxOpt inp2 out2 "[]"] assms
  by (simp del: readMenuChoice.simps)

text \<open>
  Two states of \<^verbatim>\<open>main\<close> that agree on \<^verbatim>\<open>currentId\<close>, on \<^verbatim>\<open>history\<close> and on the lines of digits
  waiting on \<^verbatim>\<open>cin\<close> take the same turn of the loop, and agree again after it.
\<close>

lemma loopBody_same_selection:
  assumes "currentId s1 = currentId s2" and "history s1 = history s2"
    and "filter (\<lambda>l. l \<noteq> [] \<and> numeric l) (cin s1) = filter (\<lambda>l. l \<noteq> [] \<and> numeric l) (cin s2)"
  shows "case loopBody graph s1 of
           Next t1 \<Rightarrow> (\<exists>t2. loopBody graph s2 = Next t2 \<and> currentId t1 = currentId t2 \<and> history t1 = history t2
                         \<and> filter (\<lambda>l. l \<noteq> [] \<and> numeric l) (cin t1) = filter (\<lambda>l. l \<noteq> [] \<and> numeric l) (cin t2))
         | Break t1 \<Rightarrow> (\<exists>t2. loopBody graph s2 = Break t2 \<and> history t1 = history t2)
         | Return st t1 \<Rightarrow> (\<exists>t2. loopBody graph s2 = Return st t2 \<and> history t1 = history t2)
         | Throw e \<Rightarrow> loopBody graph s2 = Throw e
         | OutOfBounds \<Rightarrow> loopBody graph s2 = OutOfBounds"
proof (cases "get graph (currentId s1)")
  case None
  with assms show ?thesis by (simp add: loopBody_missing)
next
  case (Some node)
  then have n2: "get graph (currentId s2) = Some node" using assms(1) by simp
  show ?thesis
  proof (cases "isEnding node")
    case True
    with Some n2 assms show ?thesis by (simp add: loopBody_ending)
  next
    case False
    let ?m = "int_of_size (length (choices node))"
    let ?o1 = "(cout s1 @ ''\<newline>-------------------------------------\<newline>'' @ text_node node @ ''\<newline>'') @ menu (choices node) @ ''\<newline>''"
    let ?o2 = "(cout s2 @ ''\<newline>-------------------------------------\<newline>'' @ text_node node @ ''\<newline>'') @ menu (choices node) @ ''\<newline>''"
    note same = readMenuChoice_same_selection[OF assms(3), of ?m ?o1 ?o2]
    show ?thesis
    proof (cases "readMenuChoice ?m (cin s1) ?o1")
      case (Inl e)
      with same have "readMenuChoice ?m (cin s2) ?o2 = Inl e"
        by (cases "readMenuChoice ?m (cin s2) ?o2") (auto simp del: readMenuChoice.simps)
      with Inl show ?thesis
        by (simp add: loopBody_menu[OF Some False] loopBody_menu[OF n2 False] del: readMenuChoice.simps)
    next
      case (Inr t)
      obtain k i1 o1 where t: "t = (k, i1, o1)" by (cases t) auto
      with Inr same obtain i2 o2 where
        r2: "readMenuChoice ?m (cin s2) ?o2 = Inr (k, i2, o2)"
        and f: "filter (\<lambda>l. l \<noteq> [] \<and> numeric l) i1 = filter (\<lambda>l. l \<noteq> [] \<and> numeric l) i2"
        by (cases "readMenuChoice ?m (cin s2) ?o2") (auto simp del: readMenuChoice.simps)
      from Inr t r2 f assms show ?thesis
        by (simp add: loopBody_menu[OF Some False] loopBody_menu[OF n2 False] del: readMenuChoice.simps)
    qed
  qed
qed

lemma gameLoop_same_selection:
  assumes "gameLoop graph s1 = Some r1"
    and "currentId s1 = currentId s2" and "history s1 = history s2"
    and "filter (\<lambda>l. l \<noteq> [] \<and> numeric l) (cin s1) = filter (\<lambda>l. l \<noteq> [] \<and> numeric l) (cin s2)"
  shows "\<exists>r2. gameLoop graph s2 = Some r2 \<and>
           (case r1 of
              Exit st t1 \<Rightarrow> (\<exists>t2. r2 = Exit st t2 \<and> history t1 = history t2)
            | Uncaught e \<Rightarrow> r2 = Uncaught e
            | Undefined \<Rightarrow> r2 = Undefined)"
  using assms
proof (induction arbitrary: s2 rule: gameLoop.raw_induct[rotated 1, consumes 1])
  case (1 gameLoop graph s1 r1)
  note sim = loopBody_same_selection[OF "1.prems", of graph]
  show ?case
  proof (cases "loopBody graph s1")
    case (Next t1)
    with sim obtain t2 where t2: "loopBody graph s2 = Next t2" "currentId t1 = currentId t2"
      "history t1 = history t2"
      "filter (\<lambda>l. l \<noteq> [] \<and> numeric l) (cin t1) = filter (\<lambda>l. l \<noteq> [] \<and> numeric l) (cin t2)"
      by auto
    from Next "1.hyps" have "gameLoop graph t1 = Some r1" by simp
    from "1.IH"[OF this t2(2,3,4)] obtain r2 where
      r2: "Spec2Isabelle.gameLoop graph t2 = Some r2"
       "(case r1 of
              Exit st t1 \<Rightarrow> (\<exists>t2. r2 = Exit st t2 \<and> history t1 = history t2)
            | Uncaught e \<Rightarrow> r2 = Uncaught e
            | Undefined \<Rightarrow> r2 = Undefined)" by blast
    have "Spec2Isabelle.gameLoop graph s2 = Spec2Isabelle.gameLoop graph t2"
      by (subst gameLoop.simps) (simp only: t2(1) flow.simps)
    with r2 show ?thesis by simp
  next
    case (Break t1)
    with sim obtain t2 where t2: "loopBody graph s2 = Break t2" "history t1 = history t2" by auto
    have "Spec2Isabelle.gameLoop graph s2 = Some (Exit 0 t2)"
      by (subst gameLoop.simps) (simp only: t2(1) flow.simps)
    with Break "1.hyps" t2 show ?thesis by auto
  next
    case (Return st t1)
    with sim obtain t2 where t2: "loopBody graph s2 = Return st t2" "history t1 = history t2" by auto
    have "Spec2Isabelle.gameLoop graph s2 = Some (Exit st t2)"
      by (subst gameLoop.simps) (simp only: t2(1) flow.simps)
    with Return "1.hyps" t2 show ?thesis by auto
  next
    case (Throw e)
    with sim have t2: "loopBody graph s2 = Throw e" by simp
    have "Spec2Isabelle.gameLoop graph s2 = Some (Uncaught e)"
      by (subst gameLoop.simps) (simp only: t2 flow.simps)
    with Throw "1.hyps" show ?thesis by auto
  next
    case OutOfBounds
    with sim have t2: "loopBody graph s2 = OutOfBounds" by simp
    have "Spec2Isabelle.gameLoop graph s2 = Some Undefined"
      by (subst gameLoop.simps) (simp only: t2 flow.simps)
    with OutOfBounds "1.hyps" show ?thesis by auto
  qed
qed

text \<open>
  C8. The history of a session is a function of the graph, the start id and the selections
  typed, and of nothing else. Two runs on the same graph from the same start id whose inputs
  hold the same lines of digits in the same order (they may differ in empty lines and in
  lines that are not numbers, and the runs may differ in what \<^verbatim>\<open>cout\<close> held before): when one
  ends with a status and a history, the other ends with the same status and the same
  history. With the same input on both sides this is the claim as stated.
\<close>

theorem session_deterministic:
  assumes "filter (\<lambda>l. l \<noteq> [] \<and> numeric l) inp1 = filter (\<lambda>l. l \<noteq> [] \<and> numeric l) inp2"
    and "gameLoop graph \<lparr>currentId = start, history = [], cin = inp1, cout = out1\<rparr> = Some (Exit status s1)"
  shows "\<exists>s2. gameLoop graph \<lparr>currentId = start, history = [], cin = inp2, cout = out2\<rparr> = Some (Exit status s2)
           \<and> history s2 = history s1"
  using gameLoop_same_selection[OF assms(2), of "\<lparr>currentId = start, history = [], cin = inp2, cout = out2\<rparr>"]
    assms(1)
  by auto

text \<open>The scenario once more, the second run with an empty line and a stray word typed.\<close>

theorem session_deterministic_witness:
  "\<exists>s2. gameLoop
          (addNode (addNode (addNode emptyGraph
             \<lparr>id_node = 0, text_node = ''a'',
                choices = [\<lparr>label = ''x'', nextId = 1\<rparr>, \<lparr>label = ''y'', nextId = 2\<rparr>]\<rparr>)
             \<lparr>id_node = 1, text_node = ''b'', choices = []\<rparr>)
             \<lparr>id_node = 2, text_node = ''c'', choices = [\<lparr>label = ''z'', nextId = 1\<rparr>]\<rparr>)
          \<lparr>currentId = 0, history = [], cin = [[], ''2'', ''go'', ''1''], cout = ''>''\<rparr>
        = Some (Exit 0 s2)
      \<and> history s2 = [0, 2, 1]"
proof -
  let ?graph = "addNode (addNode (addNode emptyGraph
             \<lparr>id_node = 0, text_node = ''a'',
                choices = [\<lparr>label = ''x'', nextId = 1\<rparr>, \<lparr>label = ''y'', nextId = 2\<rparr>]\<rparr>)
             \<lparr>id_node = 1, text_node = ''b'', choices = []\<rparr>)
             \<lparr>id_node = 2, text_node = ''c'', choices = [\<lparr>label = ''z'', nextId = 1\<rparr>]\<rparr>"
  from scenario_run[of "''a''" "''x''" "''y''" "''b''" "''c''" "''z''" "[]" "[]"] obtain s1 where
    run: "gameLoop ?graph \<lparr>currentId = 0, history = [], cin = [''2'', ''1''], cout = []\<rparr> = Some (Exit 0 s1)"
    and h: "history s1 = [0, 2, 1]" by blast
  have f: "filter (\<lambda>l. l \<noteq> [] \<and> numeric l) [''2'', ''1'']
         = filter (\<lambda>l. l \<noteq> [] \<and> numeric l) [[], ''2'', ''go'', ''1'']"
    by (simp add: numeric_def isdigit_def)
  from session_deterministic[OF f run, of "''>''"] h show ?thesis by simp
qed

subsection \<open>The shipped graph\<close>

text \<open>The only exception that leaves \<^verbatim>\<open>readMenuChoice\<close> is \<^verbatim>\<open>std::out_of_range\<close>.\<close>

lemma readMenuChoice_throws:
  "readMenuChoice maxOpt inp out = Inl e \<Longrightarrow> e = out_of_range"
proof (induction inp arbitrary: out)
  case Nil
  then show ?case by simp
next
  case (Cons line inp)
  show ?case
  proof (cases "line = [] \<or> \<not> numeric line")
    case True
    with Cons.prems have "\<exists>out1. readMenuChoice maxOpt inp out1 = Inl e"
      by (auto simp: Let_def split: if_splits)
    with Cons.IH show ?thesis by blast
  next
    case False
    then have ne: "line \<noteq> []" and dg: "\<forall>c\<in>set line. isdigit c" by (auto simp: numeric_iff)
    note eq = readMenuChoice_digits[OF ne dg, of maxOpt inp out]
    show ?thesis
    proof (cases "INT_MAX < decimal line")
      case True
      with eq Cons.prems show ?thesis by (simp del: readMenuChoice.simps)
    next
      case False
      with eq Cons.prems
      have "readMenuChoice maxOpt inp (out @ prompt maxOpt @ ''Please choose a valid option.\<newline>'') = Inl e"
        by (auto simp del: readMenuChoice.simps split: if_splits)
      with Cons.IH show ?thesis by blast
    qed
  qed
qed

text \<open>
  A graph whose every choice leads to a scene of the graph of smaller rank: the session ends
  from every scene, at a terminal scene or by the exception of \<^verbatim>\<open>readMenuChoice\<close>.
\<close>

lemma gameLoop_ranked:
  fixes rank :: "int \<Rightarrow> nat"
  assumes ranked: "\<And>i node c. get graph i = Some node \<Longrightarrow> c \<in> set (choices node) \<Longrightarrow>
              get graph (nextId c) \<noteq> None \<and> rank (nextId c) < rank i"
    and "get graph (currentId s) \<noteq> None"
  shows "\<exists>r. gameLoop graph s = Some r \<and> ((\<exists>s'. r = Exit 0 s') \<or> r = Uncaught out_of_range)"
  using assms(2)
proof (induction "rank (currentId s)" arbitrary: s rule: less_induct)
  case less
  from less.prems obtain node where node: "get graph (currentId s) = Some node" by auto
  show ?case
  proof (cases "isEnding node")
    case True
    from loopBody_ending[OF node True] show ?thesis
      by (subst gameLoop.simps) simp
  next
    case False
    then have ne: "choices node \<noteq> []" by (simp add: isEnding_def)
    let ?r = "readMenuChoice (int_of_size (length (choices node))) (cin s)
           ((cout s @ ''\<newline>-------------------------------------\<newline>'' @ text_node node @ ''\<newline>'') @ menu (choices node) @ ''\<newline>'')"
    show ?thesis
    proof (cases ?r)
      case (Inl e)
      then have "e = out_of_range" by (rule readMenuChoice_throws)
      with Inl loopBody_menu[OF node False] have "loopBody graph s = Throw out_of_range"
        by (simp del: readMenuChoice.simps)
      then show ?thesis by (subst gameLoop.simps) simp
    next
      case (Inr t)
      obtain k inp out where t: "t = (k, inp, out)" by (cases t) auto
      with Inr have r: "?r = Inr (k, inp, out)" by simp
      from pick_in_range[OF ne r] have k: "1 \<le> k" "k \<le> int (length (choices node))" by auto
      let ?c = "choices node ! nat (k - 1)"
      let ?s1 = "s\<lparr>currentId := nextId ?c,
                  history := history s @ [id_node node], cin := inp, cout := out @ pauseDots\<rparr>"
      from k have "?c \<in> set (choices node)" by (intro nth_mem) auto
      from ranked[OF node this] have c: "get graph (nextId ?c) \<noteq> None" "rank (nextId ?c) < rank (currentId s)"
        by auto
      have step: "loopBody graph s = Next ?s1"
        using loopBody_menu[OF node False] r k by (simp del: readMenuChoice.simps)
      have "\<exists>r. gameLoop graph ?s1 = Some r \<and> ((\<exists>s'. r = Exit 0 s') \<or> r = Uncaught out_of_range)"
        using c by (intro less.hyps) auto
      moreover have "gameLoop graph s = gameLoop graph ?s1"
        by (subst gameLoop.simps) (simp only: step flow.simps)
      ultimately show ?thesis by simp
    qed
  qed
qed

text \<open>The shape of the graph of \<^verbatim>\<open>buildGame\<close>: the ids present, and where the choices lead.\<close>

lemma buildGame_shape:
  "map_option (\<lambda>node. (id_node node, map nextId (choices node))) (get buildGame i) =
   (if i = 0 then Some (0, [1, 2]) else if i = 1 then Some (1, [3, 4])
    else if i = 2 then Some (2, [1, 5]) else if i = 3 then Some (3, [6, 7])
    else if i = 4 then Some (4, [8, 9]) else if i = 5 then Some (5, [10, 1])
    else if i = 6 then Some (6, [11, 12]) else if i = 7 then Some (7, [13, 14])
    else if i = 8 then Some (8, []) else if i = 9 then Some (9, [])
    else if i = 10 then Some (10, []) else if i = 11 then Some (11, [])
    else if i = 12 then Some (12, []) else if i = 13 then Some (13, [15, 12])
    else if i = 14 then Some (14, []) else if i = 15 then Some (15, [])
    else None)"
  by (simp add: buildGame_def get_addNode get_emptyGraph Let_def)

lemma buildGame_present:
  assumes "0 \<le> i" and "i \<le> 15"
  shows "\<exists>node. get buildGame i = Some node \<and> id_node node = i"
proof -
  from assms have "i \<in> set [0, 1, 2, 3, 4, 5, 6, 7, 8, 9, 10, 11, 12, 13, 14, 15]"
    unfolding list.set by (simp only: insert_iff empty_iff) arith
  then have "map_option (\<lambda>node. id_node node) (get buildGame i) = Some i"
    using buildGame_shape[of i]
    by (cases "get buildGame i") (auto split: if_splits)
  then show ?thesis by (cases "get buildGame i") auto
qed

lemma buildGame_targets:
  assumes "get buildGame i = Some node" and "c \<in> set (choices node)"
  shows "(i, nextId c) \<in> {(0, 1), (0, 2), (1, 3), (1, 4), (2, 1), (2, 5), (3, 6), (3, 7), (4, 8), (4, 9),
           (5, 10), (5, 1), (6, 11), (6, 12), (7, 13), (7, 14), (13, 15), (13, 12)}"
proof -
  from assms(2) have "nextId c \<in> set (map nextId (choices node))" by simp
  with buildGame_shape[of i] assms(1) show ?thesis
    by (auto split: if_splits)
qed

text \<open>
  The graph has no cycle: every choice leads to a scene that is nearer to the endings,
  counted by the longest way left. So the session on it ends from every scene.
\<close>

lemma buildGame_session_ends:
  assumes "get buildGame (currentId s) \<noteq> None"
  shows "\<exists>r. gameLoop buildGame s = Some r \<and> ((\<exists>s'. r = Exit 0 s') \<or> r = Uncaught out_of_range)"
proof -
  define rank :: "int \<Rightarrow> nat" where
    "rank i = (if i = 0 then 7 else if i = 2 then 6 else if i = 5 then 5 else if i = 1 then 4
      else if i = 3 then 3 else if i = 7 then 2 else if i = 4 \<or> i = 6 \<or> i = 13 then 1
      else 0)" for i
  have "get buildGame (nextId c) \<noteq> None \<and> rank (nextId c) < rank i"
    if "get buildGame i = Some node" "c \<in> set (choices node)" for i node c
  proof -
    from buildGame_targets[OF that] have "0 \<le> nextId c \<and> nextId c \<le> 15" and "rank (nextId c) < rank i"
      by (auto simp: rank_def)
    with buildGame_present[of "nextId c"] show ?thesis by auto
  qed
  then show ?thesis using assms by (rule gameLoop_ranked)
qed

text \<open>
  C10. In the graph that \<^verbatim>\<open>buildGame\<close> returns, the \<^verbatim>\<open>nextId\<close> of every choice of every node
  is the id of a node of the graph. Whatever is typed, \<^verbatim>\<open>main\<close> ends, and it ends either with
  status 0 at an ending or by the exception of \<^verbatim>\<open>stoi\<close> that nothing catches: it never
  returns 1, so the branch \<^verbatim>\<open>ERROR: Missing node\<close> is never taken.
\<close>

theorem buildGame_well_formed:
  "(\<forall>i node. get buildGame i = Some node \<longrightarrow>
      (\<forall>c\<in>set (choices node). \<exists>node'. get buildGame (nextId c) = Some node' \<and> id_node node' = nextId c))
   \<and> (\<forall>inp. \<exists>r. main inp = Some r \<and> ((\<exists>s'. r = Exit 0 s') \<or> r = Uncaught out_of_range))
   \<and> (\<forall>inp s'. main inp \<noteq> Some (Exit 1 s'))"
proof -
  have closed: "\<exists>node'. get buildGame (nextId c) = Some node' \<and> id_node node' = nextId c"
    if "get buildGame i = Some node" "c \<in> set (choices node)" for i node c
  proof -
    from buildGame_targets[OF that] have "0 \<le> nextId c" "nextId c \<le> 15" by auto
    then show ?thesis by (rule buildGame_present)
  qed
  have ends: "\<exists>r. main inp = Some r \<and> ((\<exists>s'. r = Exit 0 s') \<or> r = Uncaught out_of_range)" for inp
  proof -
    have "get buildGame 0 \<noteq> None" using buildGame_present[of 0] by auto
    then show ?thesis
      unfolding main_def Let_def by (intro buildGame_session_ends) simp
  qed
  have "main inp \<noteq> Some (Exit 1 s')" for inp s'
    using ends[of inp] by auto
  with closed ends show ?thesis by blast
qed

text \<open>The first scene and its second choice; and the play that answers 1 four times.\<close>

theorem buildGame_well_formed_witness:
  "(\<exists>node. get buildGame 0 = Some node \<and> \<lparr>label = ''Respond with curiosity'', nextId = 1\<rparr> \<in> set (choices node))
   \<and> (\<exists>node'. get buildGame 1 = Some node' \<and> id_node node' = 1)
   \<and> (\<exists>r. main [''1'', ''1'', ''1'', ''1''] = Some r \<and> ((\<exists>s'. r = Exit 0 s') \<or> r = Uncaught out_of_range))"
proof -
  let ?c = "\<lparr>label = ''Respond with curiosity'', nextId = 1\<rparr>"
  have g: "\<exists>node. get buildGame 0 = Some node \<and> ?c \<in> set (choices node)"
    by (simp add: buildGame_def get_addNode Let_def)
  then obtain node where n: "get buildGame 0 = Some node" "?c \<in> set (choices node)" by blast
  from buildGame_well_formed n
  have "\<exists>node'. get buildGame (nextId ?c) = Some node' \<and> id_node node' = nextId ?c" by blast
  with g buildGame_well_formed show ?thesis by simp
qed

subsection \<open>A second fatal ending\<close>

text \<open>
  C3. The specification calls the missing node the only fatal error of the system. The code
  detects a missing node as described (\<open>missing_node_detected\<close>), but it has a second
  fatal ending: with the line \<^verbatim>\<open>99999999999\<close> typed at the first menu, every id resolves and
  yet the process ends by the exception \<^verbatim>\<open>std::out_of_range\<close> of \<^verbatim>\<open>stoi\<close>, which nothing
  catches.
\<close>

theorem main_overflow_uncaught:
  "main (''99999999999'' # inp) = Some (Uncaught out_of_range)"
proof -
  obtain node where node: "get buildGame 0 = Some node" using buildGame_present[of 0] by auto
  have "map nextId (choices node) = [1, 2]" using buildGame_shape[of 0] node by simp
  then have ne: "\<not> isEnding node" by (auto simp: isEnding_def)
  have big: "readMenuChoice maxOpt (''99999999999'' # inp) out = Inl out_of_range" for maxOpt out
    by (rule readMenuChoice_too_large) (simp_all add: isdigit_def decimal_def digit_val_def INT_MAX_def)
  let ?s = "\<lparr>currentId = 0, history = [], cin = ''99999999999'' # inp,
             cout = banner @ ''A narrative of first contact and transcendence.\<newline>'' @ pauseDots\<rparr>"
  have "loopBody buildGame ?s = Throw out_of_range"
    using loopBody_menu[of buildGame ?s node] node ne by (simp add: big del: readMenuChoice.simps)
  then have "gameLoop buildGame ?s = Some (Uncaught out_of_range)"
    by (subst gameLoop.simps) (simp only: flow.simps)
  then show ?thesis by (simp only: main_def Let_def)
qed

end
